theory Spec2Isabelle
  imports Complex_Main "HOL-Library.Sublist" "HOL-Library.Multiset"
begin

section \<open>Sales dashboard: data model\<close>

text \<open>
  The program is one script, \<^verbatim>\<open>streamlit_app.py\<close>, that runs top to bottom: it loads a
  table, reads three filter widgets, filters the table and shows aggregates of the
  filtered table. The table is a pandas DataFrame; it is modelled as the list of its
  rows, in index order.

  A row has the five columns the script reads. The \<^verbatim>\<open>date\<close> column is converted by
  \<^verbatim>\<open>pd.to_datetime\<close> (line 40) to \<^verbatim>\<open>datetime64[ns]\<close>: a count of nanoseconds since
  the epoch, which keeps the time of day. The date widget works on calendar days, counted
  here in days since the epoch. Numeric cells are modelled as exact reals: the rounding of
  binary floating point and the wrap-around of 64-bit sums are not part of the model, and
  every cell of a row is present (no missing value in the table itself).
\<close>

type_synonym timestamp = int
type_synonym day = int

record row =
  date :: timestamp
  category :: string
  region :: string
  sales :: real
  profit :: real

type_synonym dataframe = "row list"

definition day_ns :: int where
  "day_ns = 86400000000000"

text \<open>\<^verbatim>\<open>pd.to_datetime(d)\<close> of a calendar day: midnight of that day.\<close>

definition to_datetime :: "day \<Rightarrow> timestamp" where
  "to_datetime d = d * day_ns"

text \<open>\<^verbatim>\<open>Timestamp.date()\<close>: the calendar day of a timestamp, the time of day dropped.\<close>

definition to_date :: "timestamp \<Rightarrow> day" where
  "to_date t = t div day_ns"

section \<open>Filtering (lines 68 to 80)\<close>

text \<open>
  The script builds boolean columns, combines them with \<^verbatim>\<open>&\<close> and indexes the frame
  with the result. Each of these pandas operations works row by row.
\<close>

definition col_ge :: "timestamp list \<Rightarrow> timestamp \<Rightarrow> bool list" where
  "col_ge xs t = map (\<lambda>x. t \<le> x) xs"

definition col_le :: "timestamp list \<Rightarrow> timestamp \<Rightarrow> bool list" where
  "col_le xs t = map (\<lambda>x. x \<le> t) xs"

definition isin :: "string list \<Rightarrow> string list \<Rightarrow> bool list" where
  "isin xs vals = map (\<lambda>x. x \<in> set vals) xs"

definition mask_and :: "bool list \<Rightarrow> bool list \<Rightarrow> bool list" where
  "mask_and a b = map (\<lambda>(p, q). p \<and> q) (zip a b)"

text \<open>\<^verbatim>\<open>df[mask]\<close>: the rows whose mask entry is true, in their order.\<close>

definition select_rows :: "dataframe \<Rightarrow> bool list \<Rightarrow> dataframe" where
  "select_rows df msk = map fst (filter snd (zip df msk))"

definition filter_df :: "dataframe \<Rightarrow> day list \<Rightarrow> string list \<Rightarrow> string list \<Rightarrow> dataframe" where
  "filter_df df date_range categories regions =
     (if length date_range = 2 then
        select_rows df
          (mask_and
            (mask_and
              (mask_and (col_ge (map date df) (to_datetime (date_range ! 0)))
                        (col_le (map date df) (to_datetime (date_range ! 1))))
              (isin (map category df) categories))
            (isin (map region df) regions))
      else
        select_rows df
          (mask_and (isin (map category df) categories)
                    (isin (map region df) regions)))"

section \<open>Aggregates (lines 85 to 110)\<close>

text \<open>
  pandas and NumPy compute in \<^verbatim>\<open>float64\<close>, which has three values that are not numbers
  of the real line: the two infinities and NaN. NaN is also what pandas uses for a missing
  value. A result is therefore a finite number or one of the three.
\<close>

datatype float64 = Fin real | PosInf | NegInf | NaN

text \<open>\<^verbatim>\<open>Series.sum()\<close>: the sum of the cells, 0 for an empty column.\<close>

definition col_sum :: "real list \<Rightarrow> real" where
  "col_sum xs = sum_list xs"

text \<open>\<^verbatim>\<open>Series.mean()\<close>: NaN for an empty column.\<close>

definition col_mean :: "real list \<Rightarrow> float64" where
  "col_mean xs = (if xs = [] then NaN else Fin (sum_list xs / real (length xs)))"

text \<open>
  \<^verbatim>\<open>Series.std()\<close>: the sample standard deviation (\<^verbatim>\<open>ddof=1\<close>), NaN when the column
  has fewer than two cells.
\<close>

definition col_std :: "real list \<Rightarrow> float64" where
  "col_std xs =
     (if length xs < 2 then NaN
      else let m = sum_list xs / real (length xs)
           in Fin (sqrt (sum_list (map (\<lambda>x. (x - m)\<^sup>2) xs) / real (length xs - 1))))"

text \<open>
  The quotient of two NumPy scalars: division by zero does not raise, it gives an
  infinity with the sign of the numerator, and NaN for 0 / 0.
\<close>

definition true_divide :: "real \<Rightarrow> real \<Rightarrow> float64" where
  "true_divide a b =
     (if b = 0 then (if a = 0 then NaN else if 0 < a then PosInf else NegInf)
      else Fin (a / b))"

text \<open>The product of a \<^verbatim>\<open>float64\<close> with a finite factor.\<close>

fun times_f :: "float64 \<Rightarrow> real \<Rightarrow> float64" where
  "times_f (Fin x) c = Fin (x * c)"
| "times_f PosInf c = (if c = 0 then NaN else if 0 < c then PosInf else NegInf)"
| "times_f NegInf c = (if c = 0 then NaN else if 0 < c then NegInf else PosInf)"
| "times_f NaN c = NaN"

text \<open>The values the four metric cards format (lines 85 to 110).\<close>

record metrics =
  total_sales :: real
  n_records :: nat
  mean_sales :: float64
  std_sales :: float64
  total_profit :: real
  mean_profit :: float64
  profit_rate :: float64

definition aggregate :: "dataframe \<Rightarrow> metrics" where
  "aggregate filtered_df =
     \<lparr> total_sales = col_sum (map sales filtered_df),
       n_records = length filtered_df,
       mean_sales = col_mean (map sales filtered_df),
       std_sales = col_std (map sales filtered_df),
       total_profit = col_sum (map profit filtered_df),
       mean_profit = col_mean (map profit filtered_df),
       profit_rate =
         times_f (true_divide (col_sum (map profit filtered_df))
                              (col_sum (map sales filtered_df))) 100 \<rparr>"

section \<open>Moving average (lines 132 to 135)\<close>

text \<open>
  \<^verbatim>\<open>sort_values('date')\<close> orders the rows by date, ascending. The model sorts by
  insertion; pandas does not promise an order among rows of equal date, and nothing
  proved below depends on one.
\<close>

definition sort_values_date :: "dataframe \<Rightarrow> dataframe" where
  "sort_values_date df = sort_key date df"

text \<open>
  \<^verbatim>\<open>rolling(window=w)\<close>: the window at position \<open>i\<close> holds the cells at positions
  \<open>i - w + 1\<close> to \<open>i\<close> that exist. \<^verbatim>\<open>min_periods\<close> is left at its default, the window
  size, so \<^verbatim>\<open>.mean()\<close> gives NaN where the window holds fewer than \<open>w\<close> cells.
\<close>

definition rolling_window :: "nat \<Rightarrow> 'a list \<Rightarrow> nat \<Rightarrow> 'a list" where
  "rolling_window w xs i = drop (i + 1 - w) (take (i + 1) xs)"

definition rolling_mean :: "nat \<Rightarrow> real list \<Rightarrow> float64 list" where
  "rolling_mean w xs =
     map (\<lambda>i. let win = rolling_window w xs i
              in if length win < w then NaN else col_mean win)
         [0..<length xs]"

definition moving_avg :: "nat \<Rightarrow> dataframe \<Rightarrow> float64 list" where
  "moving_avg window filtered_df =
     rolling_mean window (map sales (sort_values_date filtered_df))"

section \<open>Loading and the filter widgets (lines 20 to 65)\<close>

text \<open>
  A run ends early in two ways. Without an upload and without \<^verbatim>\<open>sample_data.csv\<close> the
  script calls \<^verbatim>\<open>st.stop()\<close>. And the date widget turns its default values into
  calendar days with \<^verbatim>\<open>.date()\<close>, which raises \<^verbatim>\<open>ValueError\<close> on NaT, the missing
  timestamp.
\<close>

datatype error = ScriptStopped | NaTDateError

text \<open>
  The parsed content of a CSV file stands for the file; \<open>None\<close> is a file that is not
  there.
\<close>

definition load :: "dataframe option \<Rightarrow> dataframe option \<Rightarrow> error + dataframe" where
  "load uploaded_file sample_data =
     (case uploaded_file of
        Some df \<Rightarrow> Inr df
      | None \<Rightarrow> (case sample_data of Some df \<Rightarrow> Inr df | None \<Rightarrow> Inl ScriptStopped))"

text \<open>\<^verbatim>\<open>Series.min()\<close> and \<^verbatim>\<open>Series.max()\<close> of a timestamp column: NaT when it is empty.\<close>

definition series_min :: "timestamp list \<Rightarrow> timestamp option" where
  "series_min xs = (if xs = [] then None else Some (Min (set xs)))"

definition series_max :: "timestamp list \<Rightarrow> timestamp option" where
  "series_max xs = (if xs = [] then None else Some (Max (set xs)))"

text \<open>\<^verbatim>\<open>Series.unique()\<close>: the distinct values in order of first appearance.\<close>

definition unique :: "'a list \<Rightarrow> 'a list" where
  "unique xs = rev (remdups (rev xs))"

text \<open>
  What the user has done with a widget is an input of the run: \<open>None\<close> for a widget left
  alone, which then returns its default, and \<open>Some\<close> selection otherwise. The date widget
  returns between zero and two days, one while the user is still choosing the second.
\<close>

record widgets =
  uploaded_file :: "dataframe option"
  date_pick :: "day list option"
  categories_pick :: "string list option"
  regions_pick :: "string list option"
  show_moving_avg :: bool
  window :: nat

definition date_input :: "timestamp option \<times> timestamp option \<Rightarrow> day list option \<Rightarrow> error + day list" where
  "date_input val pick =
     (case val of
        (Some lo, Some hi) \<Rightarrow>
          Inr (case pick of None \<Rightarrow> [to_date lo, to_date hi] | Some ds \<Rightarrow> ds)
      | _ \<Rightarrow> Inl NaTDateError)"

definition multiselect :: "string list \<Rightarrow> string list option \<Rightarrow> string list" where
  "multiselect dflt pick = (case pick of None \<Rightarrow> dflt | Some vs \<Rightarrow> vs)"

section \<open>One run of the script\<close>

text \<open>
  The result of a run that reaches the end: the filtered view, the metric values and,
  when the box is ticked, the moving-average column. The charts and tables of the four
  tabs and the CSV download read the filtered view and are not modelled.
\<close>

record dashboard =
  filtered :: dataframe
  panel :: metrics
  trend :: "float64 list option"

definition run :: "dataframe option \<Rightarrow> widgets \<Rightarrow> error + dashboard" where
  "run sample_data w =
     (case load (uploaded_file w) sample_data of
        Inl e \<Rightarrow> Inl e
      | Inr df \<Rightarrow>
          (case date_input (series_min (map date df), series_max (map date df)) (date_pick w) of
             Inl e \<Rightarrow> Inl e
           | Inr date_range \<Rightarrow>
               let categories = multiselect (unique (map category df)) (categories_pick w);
                   regions = multiselect (unique (map region df)) (regions_pick w);
                   filtered_df = filter_df df date_range categories regions
               in Inr \<lparr> filtered = filtered_df,
                        panel = aggregate filtered_df,
                        trend = (if show_moving_avg w
                                 then Some (moving_avg (window w) filtered_df)
                                 else None) \<rparr>))"

section \<open>Row-wise reading of the vectorised operations\<close>

lemma select_rows_map:
  "select_rows df (map P df) = filter P df"
  by (induction df) (simp_all add: select_rows_def)

lemma mask_and_map:
  "mask_and (map P xs) (map Q xs) = map (\<lambda>x. P x \<and> Q x) xs"
  by (induction xs) (simp_all add: mask_and_def)

lemma col_ge_map:
  "col_ge (map f df) t = map (\<lambda>r. t \<le> f r) df"
  by (simp add: col_ge_def)

lemma col_le_map:
  "col_le (map f df) t = map (\<lambda>r. f r \<le> t) df"
  by (simp add: col_le_def)

lemma isin_map:
  "isin (map f df) vals = map (\<lambda>r. f r \<in> set vals) df"
  by (simp add: isin_def)

lemma filter_df_two_bounds:
  "length date_range = 2 \<Longrightarrow>
   filter_df df date_range categories regions =
     filter (\<lambda>r. to_datetime (date_range ! 0) \<le> date r \<and>
                 date r \<le> to_datetime (date_range ! 1) \<and>
                 category r \<in> set categories \<and> region r \<in> set regions) df"
  by (simp add: filter_df_def col_ge_map col_le_map isin_map mask_and_map
      select_rows_map conj_assoc)

lemma filter_df_other:
  "length date_range \<noteq> 2 \<Longrightarrow>
   filter_df df date_range categories regions =
     filter (\<lambda>r. category r \<in> set categories \<and> region r \<in> set regions) df"
  by (simp add: filter_df_def isin_map mask_and_map select_rows_map)

section \<open>Claims about filtering\<close>

text \<open>
  C1. With a date range of two bounds, the filtered view holds exactly the rows of the
  dataset that pass all four tests: date at or after the start, date at or before the
  end, category among the selected categories, region among the selected regions. The
  view is a subsequence of the dataset (same rows, same order, same multiplicities), and
  each of its rows is a row of the dataset that passes the conjunction.
\<close>

theorem C1_filter_conjunction:
  assumes "length date_range = 2"
  shows "filter_df df date_range categories regions =
           filter (\<lambda>r. to_datetime (date_range ! 0) \<le> date r \<and>
                       date r \<le> to_datetime (date_range ! 1) \<and>
                       category r \<in> set categories \<and> region r \<in> set regions) df
         \<and> subseq (filter_df df date_range categories regions) df
         \<and> set (filter_df df date_range categories regions) =
             {r \<in> set df. to_datetime (date_range ! 0) \<le> date r \<and>
                          date r \<le> to_datetime (date_range ! 1) \<and>
                          category r \<in> set categories \<and> region r \<in> set regions}"
proof -
  let ?P = "\<lambda>r. to_datetime (date_range ! 0) \<le> date r \<and>
                 date r \<le> to_datetime (date_range ! 1) \<and>
                 category r \<in> set categories \<and> region r \<in> set regions"
  have eq: "filter_df df date_range categories regions = filter ?P df"
    using assms by (rule filter_df_two_bounds)
  have "subseq (filter ?P df) df"
    by (rule subseq_filter_left)
  moreover have "set (filter ?P df) = {r \<in> set df. ?P r}"
    by simp
  ultimately show ?thesis
    using eq by simp
qed

theorem C1_filter_conjunction_witness:
  "length [19723, 19724 :: day] = 2 \<and>
   filter_df
     [\<lparr>date = to_datetime 19723, category = ''A'', region = ''East'', sales = 100, profit = 10\<rparr>,
      \<lparr>date = to_datetime 19724, category = ''A'', region = ''East'', sales = 200, profit = 20\<rparr>,
      \<lparr>date = to_datetime 19725, category = ''B'', region = ''West'', sales = 50, profit = -5\<rparr>]
     [19723, 19724] [''A''] [''East''] =
     [\<lparr>date = to_datetime 19723, category = ''A'', region = ''East'', sales = 100, profit = 10\<rparr>,
      \<lparr>date = to_datetime 19724, category = ''A'', region = ''East'', sales = 200, profit = 20\<rparr>]"
  using C1_filter_conjunction [of "[19723, 19724]"
     "[\<lparr>date = to_datetime 19723, category = ''A'', region = ''East'', sales = 100, profit = 10\<rparr>,
      \<lparr>date = to_datetime 19724, category = ''A'', region = ''East'', sales = 200, profit = 20\<rparr>,
      \<lparr>date = to_datetime 19725, category = ''B'', region = ''West'', sales = 50, profit = -5\<rparr>]"
     "[''A'']" "[''East'']"]
  by (simp add: to_datetime_def day_ns_def)

text \<open>
  C4. With an empty selection of categories the filtered view is empty, whatever the
  date range (two bounds or not) and the selected regions are.
\<close>

theorem C4_empty_categories:
  "filter_df df date_range [] regions = []"
  by (cases "length date_range = 2")
     (simp_all add: filter_df_two_bounds filter_df_other)

text \<open>
  C5. With a date range of fewer than two bounds the date tests are left out: the
  filtered view holds the rows whose category and region are selected, of any date. The
  filter is a total function, so this branch returns a view and raises nothing.
\<close>

theorem C5_malformed_date_range:
  assumes "length date_range < 2"
  shows "filter_df df date_range categories regions =
           filter (\<lambda>r. category r \<in> set categories \<and> region r \<in> set regions) df"
  using assms by (simp add: filter_df_other)

theorem C5_malformed_date_range_witness:
  "length [19723 :: day] < 2 \<and>
   filter_df
     [\<lparr>date = to_datetime 19000, category = ''A'', region = ''East'', sales = 100, profit = 10\<rparr>,
      \<lparr>date = to_datetime 19724, category = ''B'', region = ''East'', sales = 200, profit = 20\<rparr>,
      \<lparr>date = to_datetime 19999, category = ''A'', region = ''East'', sales = 50, profit = -5\<rparr>]
     [19723] [''A''] [''East''] =
     [\<lparr>date = to_datetime 19000, category = ''A'', region = ''East'', sales = 100, profit = 10\<rparr>,
      \<lparr>date = to_datetime 19999, category = ''A'', region = ''East'', sales = 50, profit = -5\<rparr>]"
  using C5_malformed_date_range [of "[19723]"
     "[\<lparr>date = to_datetime 19000, category = ''A'', region = ''East'', sales = 100, profit = 10\<rparr>,
      \<lparr>date = to_datetime 19724, category = ''B'', region = ''East'', sales = 200, profit = 20\<rparr>,
      \<lparr>date = to_datetime 19999, category = ''A'', region = ''East'', sales = 50, profit = -5\<rparr>]"
     "[''A'']" "[''East'']"]
  by simp

section \<open>Claims about the aggregates\<close>

text \<open>
  Line 109 divides the two sums with no test of the divisor. For the single row with
  sales 0 and profit 5 the value handed to the formatter is positive infinity.
\<close>

theorem C2_profit_rate_infinite_counterexample:
  "profit_rate (aggregate
     [\<lparr>date = to_datetime 19723, category = ''A'', region = ''East'', sales = 0, profit = 5\<rparr>]) = PosInf"
  by (simp add: aggregate_def col_sum_def true_divide_def)

text \<open>
  C2, as the code has it. When the total of sales of the filtered view is zero, the profit rate
  is the plain result of the floating-point division times 100: NaN when the total
  profit is zero too, positive infinity when it is positive, negative infinity when it is
  negative. No flag or other marker goes with it.
\<close>

theorem C2_profit_rate_zero_sales:
  assumes "total_sales (aggregate filtered_df) = 0"
  shows "profit_rate (aggregate filtered_df) =
           (if total_profit (aggregate filtered_df) = 0 then NaN
            else if 0 < total_profit (aggregate filtered_df) then PosInf
            else NegInf)"
  using assms by (simp add: aggregate_def true_divide_def)

theorem C2_profit_rate_zero_sales_witness:
  "total_sales (aggregate
     [\<lparr>date = to_datetime 19723, category = ''A'', region = ''East'', sales = 40, profit = 3\<rparr>,
      \<lparr>date = to_datetime 19724, category = ''A'', region = ''East'', sales = -40, profit = -5\<rparr>]) = 0
   \<and> profit_rate (aggregate
     [\<lparr>date = to_datetime 19723, category = ''A'', region = ''East'', sales = 40, profit = 3\<rparr>,
      \<lparr>date = to_datetime 19724, category = ''A'', region = ''East'', sales = -40, profit = -5\<rparr>]) = NegInf"
  using C2_profit_rate_zero_sales [of
     "[\<lparr>date = to_datetime 19723, category = ''A'', region = ''East'', sales = 40, profit = 3\<rparr>,
      \<lparr>date = to_datetime 19724, category = ''A'', region = ''East'', sales = -40, profit = -5\<rparr>]"]
  by (simp add: aggregate_def col_sum_def)

text \<open>
  Lines 95, 96 and 103 format what \<^verbatim>\<open>mean()\<close> and \<^verbatim>\<open>std()\<close> return. When the user
  deselects every category of a one-row dataset the view is empty and the mean of sales
  is a bare NaN.
\<close>

theorem C7_mean_silent_nan_counterexample:
  "mean_sales (aggregate (filter_df
     [\<lparr>date = to_datetime 19723, category = ''A'', region = ''East'', sales = 100, profit = 10\<rparr>]
     [19723, 19723] [] [''East''])) = NaN"
  by (simp add: filter_df_two_bounds aggregate_def col_mean_def)

text \<open>
  C7, as the code has it. For a filtered view with zero records the mean of sales, the standard
  deviation of sales and the mean of profit are NaN, the value pandas returns for an
  empty column; the script passes it to the formatter as it is, with no marker beside
  it. (The script computes no standard deviation of profit.)
\<close>

theorem C7_empty_view_nan:
  assumes "n_records (aggregate filtered_df) = 0"
  shows "mean_sales (aggregate filtered_df) = NaN
       \<and> std_sales (aggregate filtered_df) = NaN
       \<and> mean_profit (aggregate filtered_df) = NaN"
  using assms by (simp add: aggregate_def col_mean_def col_std_def)

theorem C7_empty_view_nan_witness:
  "n_records (aggregate []) = 0
   \<and> mean_sales (aggregate []) = NaN
   \<and> std_sales (aggregate []) = NaN
   \<and> mean_profit (aggregate []) = NaN"
  using C7_empty_view_nan [of "[]"]
  by (simp add: aggregate_def)

section \<open>The empty dataset\<close>

text \<open>
  With no upload and a sample file that holds a header and no row, the run ends at the
  date widget (line 46): the minimum and the maximum of the empty date column are NaT,
  and the widget cannot turn NaT into a calendar day.
\<close>

theorem C3_empty_dataset_raises_counterexample:
  "run (Some [])
     \<lparr>uploaded_file = None, date_pick = None, categories_pick = None,
      regions_pick = None, show_moving_avg = False, window = 7\<rparr> = Inl NaTDateError"
  by (simp add: run_def load_def date_input_def series_min_def series_max_def)

text \<open>
  C3, as the code has it. On the empty dataset the filtering step by itself gives the empty
  view for every date range and every selection. A run of the script on the empty
  dataset, uploaded or read from the sample file, does not get that far: it ends with an
  error where the date widget is built, before filtering and aggregation.
\<close>

theorem C3_empty_dataset_stops_at_date_widget:
  "filter_df [] date_range categories regions = []
   \<and> run sample_data (w\<lparr>uploaded_file := Some []\<rparr>) = Inl NaTDateError
   \<and> run (Some []) (w\<lparr>uploaded_file := None\<rparr>) = Inl NaTDateError"
  by (simp add: filter_df_def select_rows_def run_def load_def date_input_def
      series_min_def series_max_def)

section \<open>The moving average, position by position\<close>

lemma length_rolling_mean:
  "length (rolling_mean w xs) = length xs"
  by (simp add: rolling_mean_def)

lemma length_rolling_window:
  "i < length xs \<Longrightarrow> length (rolling_window w xs i) = min w (i + 1)"
  by (auto simp add: rolling_window_def)

lemma rolling_mean_nth:
  assumes "i < length xs"
  shows "rolling_mean w xs ! i =
           (if i + 1 < w then NaN else col_mean (rolling_window w xs i))"
proof -
  have "rolling_mean w xs ! i =
          (let win = rolling_window w xs i
           in if length win < w then NaN else col_mean win)"
    using assms by (simp add: rolling_mean_def)
  moreover have "length (rolling_window w xs i) < w \<longleftrightarrow> i + 1 < w"
    using assms by (auto simp add: length_rolling_window)
  ultimately show ?thesis
    by (simp add: Let_def)
qed

lemma sum_list_drop_take:
  assumes "a \<le> b" and "b \<le> length xs"
  shows "sum_list (drop a (take b xs)) = (\<Sum>k = a..<b. (xs ! k :: real))"
proof -
  have "sum_list (drop a (take b xs)) = (\<Sum>j = 0..<b - a. drop a (take b xs) ! j)"
    using assms by (simp add: sum_list_sum_nth)
  also have "\<dots> = (\<Sum>j = 0..<b - a. xs ! (a + j))"
    using assms by (intro sum.cong) auto
  also have "\<dots> = (\<Sum>k = a..<b. xs ! k)"
    using assms sum.shift_bounds_nat_ivl [of "\<lambda>k. xs ! k" 0 a "b - a"]
    by (simp add: add.commute)
  finally show ?thesis .
qed

lemma rolling_window_mean:
  assumes "i < length xs" and "0 < w" and "w \<le> i + 1"
  shows "col_mean (rolling_window w xs i) = Fin ((\<Sum>k = i + 1 - w..i. xs ! k) / real w)"
proof -
  have len: "length (rolling_window w xs i) = w"
    using assms by (simp add: length_rolling_window)
  have "sum_list (rolling_window w xs i) = (\<Sum>k = i + 1 - w..<i + 1. xs ! k)"
    unfolding rolling_window_def using assms by (intro sum_list_drop_take) auto
  also have "{i + 1 - w..<i + 1} = {i + 1 - w..i}"
    by auto
  finally have "sum_list (rolling_window w xs i) = (\<Sum>k = i + 1 - w..i. xs ! k)" .
  moreover have "rolling_window w xs i \<noteq> []"
    using len assms by auto
  ultimately show ?thesis
    using len by (simp add: col_mean_def)
qed

lemma length_sort_values_date:
  "length (sort_values_date df) = length df"
  by (simp add: sort_values_date_def)

lemma length_moving_avg:
  "length (moving_avg w df) = length df"
  by (simp add: moving_avg_def length_rolling_mean length_sort_values_date)

text \<open>
  C9. The moving-average column has one value for each row of the date-sorted filtered
  view, which has as many rows as the filtered view. The positions that have seen fewer
  than \<open>W\<close> rows, the first \<open>W - 1\<close> or all of them when the view is shorter, are
  there and hold NaN, the missing-value marker of the column; none is left out.
\<close>

theorem C9_moving_avg_length:
  "length (moving_avg W filtered_df) = length (sort_values_date filtered_df)
   \<and> length (sort_values_date filtered_df) = length filtered_df
   \<and> take (W - 1) (moving_avg W filtered_df) =
       replicate (min (W - 1) (length filtered_df)) NaN"
proof -
  have "take (W - 1) (moving_avg W filtered_df) =
          replicate (min (W - 1) (length filtered_df)) NaN"
  proof (rule nth_equalityI)
    show "length (take (W - 1) (moving_avg W filtered_df)) =
            length (replicate (min (W - 1) (length filtered_df)) (NaN :: float64))"
      by (simp add: length_moving_avg min.commute)
  next
    fix i
    assume "i < length (take (W - 1) (moving_avg W filtered_df))"
    then have i: "i < W - 1" "i < length filtered_df"
      by (simp_all add: length_moving_avg)
    then have "i + 1 < W"
      by arith
    with i have "moving_avg W filtered_df ! i = NaN"
      by (simp add: moving_avg_def rolling_mean_nth length_sort_values_date)
    with i show "take (W - 1) (moving_avg W filtered_df) ! i =
                   replicate (min (W - 1) (length filtered_df)) NaN ! i"
      by simp
  qed
  then show ?thesis
    by (simp add: length_moving_avg length_sort_values_date)
qed

text \<open>
  C6. For a window size \<open>W\<close> of at least one, the moving average is taken over the rows
  in ascending order of date (a rearrangement of the filtered view). Position \<open>i\<close> holds
  NaN when fewer than \<open>W\<close> rows end there, and otherwise the sum of the sales at
  positions \<open>i - W + 1\<close> to \<open>i\<close> divided by \<open>W\<close>: no average over a shorter window
  appears. With fewer than \<open>W\<close> rows every position holds NaN.
\<close>

theorem C6_moving_avg:
  assumes "0 < W"
  shows "sorted (map date (sort_values_date filtered_df))
       \<and> mset (sort_values_date filtered_df) = mset filtered_df
       \<and> length (moving_avg W filtered_df) = length filtered_df
       \<and> (\<forall>i < length filtered_df.
            moving_avg W filtered_df ! i =
              (if i + 1 < W then NaN
               else Fin ((\<Sum>k = i + 1 - W..i. sales (sort_values_date filtered_df ! k))
                         / real W)))
       \<and> (length filtered_df < W \<longrightarrow> set (moving_avg W filtered_df) \<subseteq> {NaN})"
proof -
  let ?s = "sort_values_date filtered_df"
  have len: "length ?s = length filtered_df"
    by (rule length_sort_values_date)
  have nth: "moving_avg W filtered_df ! i =
               (if i + 1 < W then NaN
                else Fin ((\<Sum>k = i + 1 - W..i. sales (?s ! k)) / real W))"
    if "i < length filtered_df" for i
  proof (cases "i + 1 < W")
    case True
    with that show ?thesis
      by (simp add: moving_avg_def rolling_mean_nth len)
  next
    case False
    have "(\<Sum>k = i + 1 - W..i. map sales ?s ! k) = (\<Sum>k = i + 1 - W..i. sales (?s ! k))"
      using that len by (intro sum.cong) auto
    with False that assms show ?thesis
      by (simp add: moving_avg_def rolling_mean_nth rolling_window_mean len)
  qed
  have short: "set (moving_avg W filtered_df) \<subseteq> {NaN}" if "length filtered_df < W"
  proof
    fix v
    assume "v \<in> set (moving_avg W filtered_df)"
    then obtain i where "i < length filtered_df" "v = moving_avg W filtered_df ! i"
      by (auto simp add: in_set_conv_nth length_moving_avg)
    with that nth [of i] show "v \<in> {NaN}"
      by simp
  qed
  show ?thesis
    using nth short
    by (simp add: sort_values_date_def length_moving_avg)
qed

theorem C6_moving_avg_witness:
  "0 < (3 :: nat) \<and>
   moving_avg 3
     [\<lparr>date = to_datetime 5, category = ''A'', region = ''East'', sales = 3, profit = 1\<rparr>,
      \<lparr>date = to_datetime 4, category = ''A'', region = ''East'', sales = 6, profit = 1\<rparr>,
      \<lparr>date = to_datetime 3, category = ''A'', region = ''East'', sales = 9, profit = 1\<rparr>,
      \<lparr>date = to_datetime 1, category = ''A'', region = ''East'', sales = 12, profit = 1\<rparr>]
   = [NaN, NaN, Fin 9, Fin 6]"
  using C6_moving_avg [of 3
     "[\<lparr>date = to_datetime 5, category = ''A'', region = ''East'', sales = 3, profit = 1\<rparr>,
      \<lparr>date = to_datetime 4, category = ''A'', region = ''East'', sales = 6, profit = 1\<rparr>,
      \<lparr>date = to_datetime 3, category = ''A'', region = ''East'', sales = 9, profit = 1\<rparr>,
      \<lparr>date = to_datetime 1, category = ''A'', region = ''East'', sales = 12, profit = 1\<rparr>]"]
  by (simp add: moving_avg_def rolling_mean_def rolling_window_def sort_values_date_def
      col_mean_def to_datetime_def day_ns_def upt_rec [of _ "numeral _"] upt_rec [of _ "Suc _"])

section \<open>The default state of the filter widgets\<close>








end
